theory Spec2Isabelle
  imports Main
begin

section \<open>Data model\<close>

text \<open>
  The values with which the promise of \<^verbatim>\<open>mergePdfs\<close> rejects:
  \<^item> \<open>Error m\<close>: an object made by \<^verbatim>\<open>new Error(m)\<close> in \<^verbatim>\<open>mergePdfs\<close> itself;
  \<^item> \<open>ReferenceError m\<close>: what reading an identifier that is not defined throws;
  \<^item> \<open>ReadRejection r\<close>: the value with which \<^verbatim>\<open>file.arrayBuffer()\<close> rejected, where
    \<open>r\<close> is its message if it is an instance of \<^verbatim>\<open>Error\<close> (a \<^verbatim>\<open>DOMException\<close> is)
    and \<open>None\<close> if it is not.
\<close>

datatype thrown = Error string | ReferenceError string | ReadRejection "string option"

text \<open>
  The browser's \<^verbatim>\<open>File\<close>: its \<^verbatim>\<open>name\<close>, its declared media type \<^verbatim>\<open>type\<close>
  and the outcome of \<^verbatim>\<open>await file.arrayBuffer()\<close>, which is the payload (\<open>Inr\<close>) or a
  rejection (\<open>Inl\<close>, see \<open>ReadRejection\<close>). The payload type \<open>'b\<close> is left open.
  The fields \<^verbatim>\<open>name\<close> and \<^verbatim>\<open>type\<close> are \<open>fname\<close> and \<open>ftype\<close> here, since
  \<^verbatim>\<open>ProcessedFile\<close> has a field \<^verbatim>\<open>name\<close> too.
\<close>

record 'b File =
  fname :: string
  ftype :: string
  arrayBuffer :: "string option + 'b"

text \<open>
  The interface \<^verbatim>\<open>ProcessedFile\<close> of the application; its fields \<^verbatim>\<open>id\<close>, \<^verbatim>\<open>file\<close>
  and \<^verbatim>\<open>name\<close> are \<open>pid\<close>, \<open>pfile\<close> and \<open>pname\<close>.
\<close>

record 'b ProcessedFile =
  pid :: string
  pfile :: "'b File"
  pname :: string

text \<open>
  The five \<^verbatim>\<open>useState\<close> cells of the component \<^verbatim>\<open>App\<close>; \<^verbatim>\<open>null\<close> is \<open>None\<close>.
\<close>

record 'b AppState =
  selectedFiles :: "'b ProcessedFile list"
  mergedPdfUrl :: "string option"
  isMerging :: bool
  error :: "string option"
  dragOver :: bool

text \<open>
  The part of \<^verbatim>\<open>PDFLib.PDFDocument\<close> that \<^verbatim>\<open>mergePdfs\<close> calls. The library is not part of
  the repository, so it is a parameter: \<open>'d\<close> is a loaded document, \<open>'p\<close> a page copied into
  the output document. \<open>None\<close> stands for a call that throws. The output document created by
  \<^verbatim>\<open>PDFDocument.create()\<close> is the list of the pages added to it so far, so that
  \<^verbatim>\<open>addPage\<close> appends and \<^verbatim>\<open>getPageCount\<close> is the length.
\<close>

record ('b, 'd, 'p) PDFDocument =
  load :: "'b \<Rightarrow> 'd option"
  getPageIndices :: "'d \<Rightarrow> nat list"
  copyPages :: "'d \<Rightarrow> nat list \<Rightarrow> 'p list option"
  save :: "'p list \<Rightarrow> 'b"

text \<open>
  The global \<^verbatim>\<open>PDFLib\<close> (\<^verbatim>\<open>declare var PDFLib: any\<close>) as \<^verbatim>\<open>mergePdfs\<close> finds it: an
  identifier that does not resolve (reading it throws the engine's \<^verbatim>\<open>ReferenceError\<close>,
  whose message is the argument), a value that is falsy or has no \<^verbatim>\<open>PDFDocument\<close>, or the
  loaded library.
\<close>

datatype ('b, 'd, 'p) PDFLib =
  Unresolved string
  | WithoutPDFDocument
  | Loaded "('b, 'd, 'p) PDFDocument"

section \<open>Strings of the source\<close>

text \<open>
  Characters beyond ASCII are written by their code (all of them are below 256):
  \<open>0xE1\<close> a-acute, \<open>0xE9\<close> e-acute, \<open>0xED\<close> i-acute, \<open>0xF3\<close> o-acute, \<open>0xF1\<close> n-tilde.
\<close>

definition application_pdf :: string where
  "application_pdf = ''application/pdf''"

definition msg_library_not_loaded :: string where
  "msg_library_not_loaded =
     ''La librer'' @ [CHR 0xED] @ ''a PDF-lib no est'' @ [CHR 0xE1]
     @ '' cargada. Por favor, verifica tu conexi'' @ [CHR 0xF3]
     @ ''n a internet o la inclusi'' @ [CHR 0xF3] @ ''n del script.''"

definition msg_no_files :: string where
  "msg_no_files = ''No se proporcionaron archivos para fusionar.''"

definition msg_process_prefix :: string where
  "msg_process_prefix = ''Error al procesar ''"

definition msg_process_suffix :: string where
  "msg_process_suffix =
     ''. Podr'' @ [CHR 0xED] @ ''a estar corrupto o protegido por contrase'' @ [CHR 0xF1]
     @ ''a sin permisos de copia.''"

definition msg_process :: "string \<Rightarrow> string" where
  "msg_process n = msg_process_prefix @ n @ msg_process_suffix"

definition msg_no_pages :: string where
  "msg_no_pages =
     ''No se fusionaron p'' @ [CHR 0xE1] @ ''ginas con '' @ [CHR 0xE9]
     @ ''xito. Por favor, revisa tus archivos PDF.''"

definition msg_not_pdf_ignored :: string where
  "msg_not_pdf_ignored = ''Algunos archivos no eran PDF y fueron ignorados.''"

definition msg_select_two :: string where
  "msg_select_two = ''Por favor, selecciona al menos dos archivos PDF para fusionar.''"

definition msg_unknown :: string where
  "msg_unknown =
     ''Ocurri'' @ [CHR 0xF3] @ '' un error desconocido durante la fusi'' @ [CHR 0xF3] @ ''n.''"

subsection \<open>Numbers in template literals\<close>

text \<open>
  \<^verbatim>\<open>Date.now()\<close> is an integer number of milliseconds; a template literal prints it in
  decimal, with a minus sign when negative.
\<close>

definition digit_char :: "nat \<Rightarrow> char" where
  "digit_char d = ''0123456789'' ! d"

fun nat_toString :: "nat \<Rightarrow> string" where
  "nat_toString n =
     (if n < 10 then [digit_char n] else nat_toString (n div 10) @ [digit_char (n mod 10)])"

declare nat_toString.simps [simp del]

definition number_toString :: "int \<Rightarrow> string" where
  "number_toString i = (if i < 0 then ''-'' @ nat_toString (nat (- i)) else nat_toString (nat i))"

text \<open>
  The order in which file names that differ only in such a number sort: a shorter string of
  digits first, and strings of equal length by the codes of their characters.
\<close>

definition sortsBefore :: "string \<Rightarrow> string \<Rightarrow> bool" where
  "sortsBefore a b =
     (length a < length b
      \<or> length a = length b \<and> (a, b) \<in> lexord {(c, d). (of_char c :: nat) < of_char d})"

section \<open>The service: mergePdfs\<close>

text \<open>
  The body of the \<^verbatim>\<open>try\<close> block for one file: load the bytes, copy the pages at all
  page indices. Whatever is thrown inside is caught and replaced, so \<open>None\<close> is enough.
\<close>

definition loadAndCopy :: "('b, 'd, 'p) PDFDocument \<Rightarrow> 'b \<Rightarrow> 'p list option" where
  "loadAndCopy api buf =
     (case load api buf of
        None \<Rightarrow> None
      | Some pdfDoc \<Rightarrow> copyPages api pdfDoc (getPageIndices api pdfDoc))"

text \<open>
  The \<^verbatim>\<open>for (const file of files)\<close> loop, with the pages of \<^verbatim>\<open>mergedPdf\<close> as
  accumulator. A file whose type is not \<^verbatim>\<open>application/pdf\<close> is skipped by
  \<^verbatim>\<open>continue\<close>; \<^verbatim>\<open>file.arrayBuffer()\<close> is awaited outside the \<^verbatim>\<open>try\<close>, so its rejection
  leaves the function as it is; a failure inside the \<^verbatim>\<open>try\<close> is rethrown as the error that
  names the file.
\<close>

fun mergeLoop ::
  "('b, 'd, 'p) PDFDocument \<Rightarrow> 'p list \<Rightarrow> 'b File list \<Rightarrow> thrown + 'p list" where
  "mergeLoop api mergedPdf [] = Inr mergedPdf"
| "mergeLoop api mergedPdf (file # files) =
     (if ftype file \<noteq> application_pdf then mergeLoop api mergedPdf files
      else case arrayBuffer file of
             Inl rejection \<Rightarrow> Inl (ReadRejection rejection)
           | Inr buf \<Rightarrow>
               (case loadAndCopy api buf of
                  None \<Rightarrow> Inl (Error (msg_process (fname file)))
                | Some copiedPages \<Rightarrow> mergeLoop api (mergedPdf @ copiedPages) files))"

text \<open>
  \<^verbatim>\<open>mergePdfs\<close>. The argument is \<open>None\<close> when \<^verbatim>\<open>files\<close> is \<^verbatim>\<open>null\<close> or
  \<^verbatim>\<open>undefined\<close>. \<open>Inl\<close> is the rejection of the returned promise.
\<close>

definition mergePdfs ::
  "('b, 'd, 'p) PDFLib \<Rightarrow> 'b File list option \<Rightarrow> thrown + 'b" where
  "mergePdfs lib files =
     (case lib of
        Unresolved m \<Rightarrow> Inl (ReferenceError m)
      | WithoutPDFDocument \<Rightarrow> Inl (Error msg_library_not_loaded)
      | Loaded api \<Rightarrow>
          (case files of
             None \<Rightarrow> Inl (Error msg_no_files)
           | Some fs \<Rightarrow>
               if length fs = 0 then Inl (Error msg_no_files)
               else (case mergeLoop api [] fs of
                       Inl e \<Rightarrow> Inl e
                     | Inr mergedPdf \<Rightarrow>
                         if length mergedPdf = 0 then Inl (Error msg_no_pages)
                         else Inr (save api mergedPdf))))"

subsection \<open>What the library does with one file\<close>

text \<open>
  The pages that the loop copies from a file, when its bytes can be read, the library loads
  them and copies the pages; \<open>None\<close> otherwise.
\<close>

definition pagesOf :: "('b, 'd, 'p) PDFDocument \<Rightarrow> 'b File \<Rightarrow> 'p list option" where
  "pagesOf api file = (case arrayBuffer file of Inl r \<Rightarrow> None | Inr buf \<Rightarrow> loadAndCopy api buf)"

definition thePages :: "('b, 'd, 'p) PDFDocument \<Rightarrow> 'b File \<Rightarrow> 'p list" where
  "thePages api file = (case pagesOf api file of None \<Rightarrow> [] | Some ps \<Rightarrow> ps)"

text \<open>
  A valid PDF input: declared as \<^verbatim>\<open>application/pdf\<close>, readable, loaded by the library, and
  its pages can be copied.
\<close>

definition validPdf :: "('b, 'd, 'p) PDFDocument \<Rightarrow> 'b File \<Rightarrow> bool" where
  "validPdf api file = (ftype file = application_pdf \<and> pagesOf api file \<noteq> None)"



text \<open>
  A file that the loop passes without throwing: skipped because of its type, or processed.
\<close>

definition passes :: "('b, 'd, 'p) PDFDocument \<Rightarrow> 'b File \<Rightarrow> bool" where
  "passes api file = (ftype file \<noteq> application_pdf \<or> pagesOf api file \<noteq> None)"

section \<open>The application: event handlers of App\<close>

text \<open>
  A string or \<^verbatim>\<open>null\<close> used as a condition (\<^verbatim>\<open>if (mergedPdfUrl)\<close>,
  \<^verbatim>\<open>mergedPdfUrl && ...\<close>): \<^verbatim>\<open>null\<close> and the empty string are falsy.
\<close>

definition truthy :: "string option \<Rightarrow> bool" where
  "truthy u = (case u of None \<Rightarrow> False | Some v \<Rightarrow> v \<noteq> [])"

text \<open>
  \<^verbatim>\<open>Array.from(files).filter(...).map(...)\<close> of \<^verbatim>\<open>handleFileChange\<close> and
  \<^verbatim>\<open>handleDrop\<close>. \<^verbatim>\<open>Date.now()\<close> is read once for every file that passes the filter;
  \<open>clock i\<close> is the reading for the \<open>i\<close>-th of them.
\<close>

definition newFiles_of :: "(nat \<Rightarrow> int) \<Rightarrow> 'b File list \<Rightarrow> 'b ProcessedFile list" where
  "newFiles_of clock files =
     map (\<lambda>(i, file).
            \<lparr>pid = fname file @ ''-'' @ number_toString (clock i), pfile = file, pname = fname file\<rparr>)
         (enumerate 0 (filter (\<lambda>file. ftype file = application_pdf) files))"

text \<open>
  The updater passed to \<^verbatim>\<open>setSelectedFiles\<close>: \<^verbatim>\<open>updatedFiles\<close> starts as a copy of
  \<^verbatim>\<open>prevFiles\<close>, and each new file is pushed unless \<^verbatim>\<open>prevFiles.find\<close> finds its name
  (the search is in \<^verbatim>\<open>prevFiles\<close>, not in \<^verbatim>\<open>updatedFiles\<close>).
\<close>

definition updateSelected ::
  "'b ProcessedFile list \<Rightarrow> 'b ProcessedFile list \<Rightarrow> 'b ProcessedFile list" where
  "updateSelected prevFiles newFiles =
     foldl (\<lambda>updatedFiles nf.
              if find (\<lambda>pf. pname pf = pname nf) prevFiles = None
              then updatedFiles @ [nf] else updatedFiles)
           prevFiles newFiles"

text \<open>
  \<^verbatim>\<open>handleFileChange\<close>; \<open>files\<close> is \<^verbatim>\<open>event.target.files\<close>, which may be
  \<^verbatim>\<open>null\<close>. The handler also empties the value of the input element, which is not part of
  the state.
\<close>

definition handleFileChange ::
  "'b File list option \<Rightarrow> (nat \<Rightarrow> int) \<Rightarrow> 'b AppState \<Rightarrow> 'b AppState" where
  "handleFileChange files clock s =
     (let s1 = s\<lparr>error := None\<rparr> in
      case files of
        None \<Rightarrow> s1
      | Some fs \<Rightarrow>
          (let newFiles = newFiles_of clock fs;
               s2 = (if length newFiles \<noteq> length fs
                     then s1\<lparr>error := Some msg_not_pdf_ignored\<rparr> else s1)
           in s2\<lparr>selectedFiles := updateSelected (selectedFiles s2) newFiles\<rparr>))"

text \<open>\<^verbatim>\<open>handleDrop\<close>; \<open>files\<close> is \<^verbatim>\<open>event.dataTransfer.files\<close>.\<close>

definition handleDrop ::
  "'b File list option \<Rightarrow> (nat \<Rightarrow> int) \<Rightarrow> 'b AppState \<Rightarrow> 'b AppState" where
  "handleDrop files clock s =
     (let s1 = s\<lparr>dragOver := False, error := None\<rparr> in
      case files of
        None \<Rightarrow> s1
      | Some fs \<Rightarrow>
          (let newFiles = newFiles_of clock fs;
               s2 = (if length newFiles \<noteq> length fs
                     then s1\<lparr>error := Some msg_not_pdf_ignored\<rparr> else s1)
           in s2\<lparr>selectedFiles := updateSelected (selectedFiles s2) newFiles\<rparr>))"

definition handleDragOver :: "'b AppState \<Rightarrow> 'b AppState" where
  "handleDragOver s = s\<lparr>dragOver := True\<rparr>"

definition handleDragLeave :: "'b AppState \<Rightarrow> 'b AppState" where
  "handleDragLeave s = s\<lparr>dragOver := False\<rparr>"

definition handleRemoveFile :: "string \<Rightarrow> 'b AppState \<Rightarrow> 'b AppState" where
  "handleRemoveFile fileId s =
     (let s1 = s\<lparr>selectedFiles := filter (\<lambda>f. pid f \<noteq> fileId) (selectedFiles s)\<rparr>
      in if truthy (mergedPdfUrl s) then s1\<lparr>mergedPdfUrl := None\<rparr> else s1)"

text \<open>
  \<^verbatim>\<open>handleMergePdfs\<close> is asynchronous. Its synchronous beginning runs up to
  \<^verbatim>\<open>await mergePdfs(pdfFiles)\<close>: the second component is the argument of the call to
  \<^verbatim>\<open>mergePdfs\<close>, and \<open>None\<close> when the handler returns without calling it.
\<close>

definition handleMergePdfs_begin :: "'b AppState \<Rightarrow> 'b AppState \<times> 'b File list option" where
  "handleMergePdfs_begin s =
     (if length (selectedFiles s) < 2 then (s\<lparr>error := Some msg_select_two\<rparr>, None)
      else (s\<lparr>isMerging := True, error := None, mergedPdfUrl := None\<rparr>,
            Some (map pfile (selectedFiles s))))"

text \<open>
  \<^verbatim>\<open>err instanceof Error ? err.message : "..."\<close> of the \<^verbatim>\<open>catch\<close> block.
\<close>

definition caughtMessage :: "thrown \<Rightarrow> string" where
  "caughtMessage err =
     (case err of
        Error m \<Rightarrow> m
      | ReferenceError m \<Rightarrow> m
      | ReadRejection (Some m) \<Rightarrow> m
      | ReadRejection None \<Rightarrow> msg_unknown)"

text \<open>
  What runs when the promise of \<^verbatim>\<open>mergePdfs\<close> settles: the rest of the \<^verbatim>\<open>try\<close>, or the
  \<^verbatim>\<open>catch\<close>, then the \<^verbatim>\<open>finally\<close>. \<^verbatim>\<open>URL.createObjectURL\<close> of the blob of the
  merged bytes is a parameter.
\<close>

definition handleMergePdfs_settle ::
  "('b \<Rightarrow> string) \<Rightarrow> thrown + 'b \<Rightarrow> 'b AppState \<Rightarrow> 'b AppState" where
  "handleMergePdfs_settle createObjectURL outcome s =
     (let s1 = (case outcome of
                  Inr mergedPdfBytes \<Rightarrow> s\<lparr>mergedPdfUrl := Some (createObjectURL mergedPdfBytes)\<rparr>
                | Inl err \<Rightarrow> s\<lparr>error := Some (caughtMessage err)\<rparr>)
      in s1\<lparr>isMerging := False\<rparr>)"

text \<open>The whole handler, when no other event is handled while the merge is awaited.\<close>

definition handleMergePdfs ::
  "('b, 'd, 'p) PDFLib \<Rightarrow> ('b \<Rightarrow> string) \<Rightarrow> 'b AppState \<Rightarrow> 'b AppState" where
  "handleMergePdfs lib createObjectURL s =
     (case handleMergePdfs_begin s of
        (s1, None) \<Rightarrow> s1
      | (s1, Some pdfFiles) \<Rightarrow>
          handleMergePdfs_settle createObjectURL (mergePdfs lib (Some pdfFiles)) s1)"

text \<open>
  \<^verbatim>\<open>handleDownloadMergedPdf\<close>: the anchor element that is clicked, if any; \<open>now\<close> is the
  reading of \<^verbatim>\<open>Date.now()\<close> when the handler runs. The state is not changed.
\<close>

record Anchor =
  href :: string
  download :: string

definition handleDownloadMergedPdf :: "'b AppState \<Rightarrow> int \<Rightarrow> Anchor option" where
  "handleDownloadMergedPdf s now =
     (if truthy (mergedPdfUrl s) then
        (case mergedPdfUrl s of
           None \<Rightarrow> None
         | Some url \<Rightarrow>
             Some \<lparr>href = url,
                   download = ''documento_fusionado_'' @ number_toString now @ ''.pdf''\<rparr>)
      else None)"

definition handleClearAll :: "'b AppState \<Rightarrow> 'b AppState" where
  "handleClearAll s =
     s\<lparr>selectedFiles := [], mergedPdfUrl := None, error := None, isMerging := False\<rparr>"

text \<open>The initial values of the \<^verbatim>\<open>useState\<close> cells.\<close>

definition initialState :: "'b AppState" where
  "initialState =
     \<lparr>selectedFiles = [], mergedPdfUrl = None, isMerging = False, error = None,
      dragOver = False\<rparr>"

section \<open>A stand-in library and concrete files\<close>

text \<open>
  A small implementation of the library interface, used for the concrete runs below: the
  bytes of a file are garbage, a document with its pages, or a document that cannot be
  copied from.
\<close>

datatype stub_bytes = Garbage | Pdf "string list" | CopyProtected "string list"

definition stubPDFDocument :: "(stub_bytes, stub_bytes, string) PDFDocument" where
  "stubPDFDocument =
     \<lparr>load = (\<lambda>b. case b of Garbage \<Rightarrow> None | _ \<Rightarrow> Some b),
      getPageIndices =
        (\<lambda>d. case d of Garbage \<Rightarrow> [] | Pdf ps \<Rightarrow> [0..<length ps]
              | CopyProtected ps \<Rightarrow> [0..<length ps]),
      copyPages = (\<lambda>d idxs. case d of Pdf ps \<Rightarrow> Some (map (\<lambda>i. ps ! i) idxs) | _ \<Rightarrow> None),
      save = Pdf\<rparr>"

definition stubCreateObjectURL :: "stub_bytes \<Rightarrow> string" where
  "stubCreateObjectURL b = ''blob:merged''"

definition a_pdf :: "stub_bytes File" where
  "a_pdf = \<lparr>fname = ''a.pdf'', ftype = application_pdf, arrayBuffer = Inr (Pdf [''a1'', ''a2''])\<rparr>"

definition b_pdf :: "stub_bytes File" where
  "b_pdf =
     \<lparr>fname = ''b.pdf'', ftype = application_pdf,
      arrayBuffer = Inr (Pdf [''b1'', ''b2'', ''b3''])\<rparr>"

definition c_pdf :: "stub_bytes File" where
  "c_pdf = \<lparr>fname = ''c.pdf'', ftype = application_pdf, arrayBuffer = Inr (Pdf [''c1''])\<rparr>"

definition a_pdf_other :: "stub_bytes File" where
  "a_pdf_other =
     \<lparr>fname = ''a.pdf'', ftype = application_pdf, arrayBuffer = Inr (Pdf [''other''])\<rparr>"


definition empty_pdf :: "stub_bytes File" where
  "empty_pdf = \<lparr>fname = ''empty.pdf'', ftype = application_pdf, arrayBuffer = Inr (Pdf [])\<rparr>"

definition blank_pdf :: "stub_bytes File" where
  "blank_pdf = \<lparr>fname = ''blank.pdf'', ftype = application_pdf, arrayBuffer = Inr (Pdf [])\<rparr>"




definition notes_txt :: "stub_bytes File" where
  "notes_txt = \<lparr>fname = ''notes.txt'', ftype = ''text/plain'', arrayBuffer = Inr Garbage\<rparr>"

definition clock0 :: "nat \<Rightarrow> int" where
  "clock0 i = 1700000000000 + int i"

text \<open>
  The state after \<^verbatim>\<open>a.pdf\<close> and \<^verbatim>\<open>b.pdf\<close> were picked, and the state after they
  were merged.
\<close>

definition twoSelected :: "stub_bytes AppState" where
  "twoSelected = handleFileChange (Some [a_pdf, b_pdf]) clock0 initialState"

definition afterMerge :: "stub_bytes AppState" where
  "afterMerge = handleMergePdfs (Loaded stubPDFDocument) stubCreateObjectURL twoSelected"

text \<open>
  The states after only \<^verbatim>\<open>a.pdf\<close>, and after \<^verbatim>\<open>a.pdf\<close> and \<^verbatim>\<open>bad.pdf\<close>, were
  picked.
\<close>

definition oneSelected :: "stub_bytes AppState" where
  "oneSelected = handleFileChange (Some [a_pdf]) clock0 initialState"


section \<open>Properties of the loop of mergePdfs\<close>

lemma mergeLoop_skips_non_pdf:
  "mergeLoop api acc (filter (\<lambda>f. ftype f = application_pdf) fs) = mergeLoop api acc fs"
  by (induction fs arbitrary: acc) (auto split: sum.splits option.splits)

lemma mergeLoop_passes:
  "\<forall>f\<in>set fs. passes api f \<Longrightarrow>
   mergeLoop api acc fs =
     Inr (acc @ concat (map (thePages api) (filter (\<lambda>f. ftype f = application_pdf) fs)))"
proof (induction fs arbitrary: acc)
  case Nil
  show ?case by simp
next
  case (Cons f fs)
  show ?case
  proof (cases "ftype f = application_pdf")
    case False
    with Cons show ?thesis by simp
  next
    case True
    with Cons.prems obtain buf ps where
      "arrayBuffer f = Inr buf" "loadAndCopy api buf = Some ps"
      by (auto simp: passes_def pagesOf_def split: sum.splits)
    with True Cons show ?thesis
      by (simp add: thePages_def pagesOf_def)
  qed
qed

lemma mergeLoop_valid:
  assumes "\<forall>f\<in>set fs. validPdf api f"
  shows "mergeLoop api acc fs = Inr (acc @ concat (map (thePages api) fs))"
proof -
  have "\<forall>f\<in>set fs. passes api f"
    using assms by (simp add: validPdf_def passes_def)
  moreover have "filter (\<lambda>f. ftype f = application_pdf) fs = fs"
    using assms by (simp add: validPdf_def filter_id_conv)
  ultimately show ?thesis
    using mergeLoop_passes [of fs api acc] by simp
qed



lemma length_concat_pages:
  "length (concat (map (thePages api) fs)) = sum_list (map (\<lambda>f. length (thePages api f)) fs)"
  by (simp add: length_concat comp_def)

lemma mergeLoop_error_cases:
  "mergeLoop api acc fs = Inl e \<Longrightarrow>
   (\<exists>r. e = ReadRejection r) \<or> (\<exists>f\<in>set fs. e = Error (msg_process (fname f)))"
  by (induction fs arbitrary: acc) (auto split: if_splits sum.splits option.splits)

lemma mergePdfs_Loaded:
  "mergePdfs (Loaded api) (Some fs) =
     (if fs = [] then Inl (Error msg_no_files)
      else case mergeLoop api [] fs of
             Inl e \<Rightarrow> Inl e
           | Inr mergedPdf \<Rightarrow>
               if mergedPdf = [] then Inl (Error msg_no_pages) else Inr (save api mergedPdf))"
  by (simp add: mergePdfs_def split: sum.splits)

subsection \<open>The messages are different strings\<close>

lemma msg_process_neq_no_files: "msg_process n \<noteq> msg_no_files"
  by (simp add: msg_process_def msg_process_prefix_def msg_no_files_def)

lemma msg_process_neq_no_pages: "msg_process n \<noteq> msg_no_pages"
  by (simp add: msg_process_def msg_process_prefix_def msg_no_pages_def)

lemma msg_no_pages_neq_no_files: "msg_no_pages \<noteq> msg_no_files"
  by (simp add: msg_no_pages_def msg_no_files_def)

section \<open>Properties of the selection handlers\<close>

lemma foldl_push_if:
  "foldl (\<lambda>updatedFiles nf. if P nf then updatedFiles @ [nf] else updatedFiles) acc newFiles =
     acc @ filter P newFiles"
  by (induction newFiles arbitrary: acc) simp_all

lemma updateSelected_eq:
  "updateSelected prevFiles newFiles =
     prevFiles @ filter (\<lambda>nf. pname nf \<notin> pname ` set prevFiles) newFiles"
proof -
  have "(\<lambda>nf. find (\<lambda>pf. pname pf = pname nf) prevFiles = None) =
        (\<lambda>nf. pname nf \<notin> pname ` set prevFiles)"
    by (rule ext) (force simp: find_None_iff image_iff)
  then show ?thesis
    unfolding updateSelected_def foldl_push_if by (rule arg_cong)
qed

lemma length_newFiles_of:
  "length (newFiles_of clock fs) = length (filter (\<lambda>f. ftype f = application_pdf) fs)"
  by (simp add: newFiles_of_def)


lemma newFiles_of_pfile:
  "map pfile (newFiles_of clock fs) = filter (\<lambda>f. ftype f = application_pdf) fs"
proof -
  let ?pdfs = "filter (\<lambda>f. ftype f = application_pdf) fs"
  have "map pfile (newFiles_of clock fs) = map snd (enumerate 0 ?pdfs)"
    by (simp add: newFiles_of_def comp_def case_prod_unfold)
  then show ?thesis
    by (simp only: map_snd_enumerate)
qed

lemma newFiles_of_pname:
  "map pname (newFiles_of clock fs) = map fname (filter (\<lambda>f. ftype f = application_pdf) fs)"
proof -
  let ?pdfs = "filter (\<lambda>f. ftype f = application_pdf) fs"
  have "map pname (newFiles_of clock fs) = map (fname \<circ> snd) (enumerate 0 ?pdfs)"
    by (simp add: newFiles_of_def comp_def case_prod_unfold)
  also have "\<dots> = map fname (map snd (enumerate 0 ?pdfs))"
    by (simp only: map_map)
  finally show ?thesis
    by (simp only: map_snd_enumerate)
qed

lemma selectedFiles_handleFileChange:
  "selectedFiles (handleFileChange (Some fs) clock s) =
     updateSelected (selectedFiles s) (newFiles_of clock fs)"
  by (simp add: handleFileChange_def Let_def)

lemma selectedFiles_handleDrop:
  "selectedFiles (handleDrop (Some fs) clock s) =
     updateSelected (selectedFiles s) (newFiles_of clock fs)"
  by (simp add: handleDrop_def Let_def)

lemma mergedPdfUrl_handleFileChange:
  "mergedPdfUrl (handleFileChange files clock s) = mergedPdfUrl s"
  by (simp add: handleFileChange_def Let_def split: option.splits)

lemma mergedPdfUrl_handleDrop:
  "mergedPdfUrl (handleDrop files clock s) = mergedPdfUrl s"
  by (simp add: handleDrop_def Let_def split: option.splits)

lemma handleRemoveFile_invalidates:
  "\<not> truthy (mergedPdfUrl (handleRemoveFile fileId s))
   \<and> handleDownloadMergedPdf (handleRemoveFile fileId s) now = None"
  by (simp add: handleRemoveFile_def handleDownloadMergedPdf_def Let_def truthy_def
      split: option.splits)

lemma added_later_is_dropped:
  assumes "n \<in> pname ` set (selectedFiles s)"
  shows "filter (\<lambda>pf. pname pf = n) (selectedFiles (handleFileChange (Some fs) clock s)) =
         filter (\<lambda>pf. pname pf = n) (selectedFiles s)"
proof -
  have "filter (\<lambda>pf. pname pf = n)
          (filter (\<lambda>nf. pname nf \<notin> pname ` set (selectedFiles s)) (newFiles_of clock fs)) = []"
    using assms by (auto simp: filter_empty_conv)
  then show ?thesis
    by (simp add: selectedFiles_handleFileChange updateSelected_eq)
qed

lemma disjoint_filter_notin: "A \<inter> g ` set (filter (\<lambda>x. g x \<notin> A) xs) = {}"
  by auto

lemma distinct_names_preserved:
  assumes "distinct (map pname (selectedFiles s))"
    and "distinct (map fname (filter (\<lambda>f. ftype f = application_pdf) fs))"
  shows "distinct (map pname (selectedFiles (handleFileChange (Some fs) clock s)))"
proof -
  have "distinct (map pname (newFiles_of clock fs))"
    using assms(2) by (simp add: newFiles_of_pname)
  then have "distinct (map pname
      (filter (\<lambda>nf. pname nf \<notin> pname ` set (selectedFiles s)) (newFiles_of clock fs)))"
    by (rule distinct_map_filter)
  then show ?thesis
    using assms(1) disjoint_filter_notin [of "pname ` set (selectedFiles s)" pname]
    by (simp add: selectedFiles_handleFileChange updateSelected_eq)
qed

section \<open>Properties of the decimal rendering\<close>

lemma nat_toString_small: "n < 10 \<Longrightarrow> nat_toString n = [digit_char n]"
  by (simp add: nat_toString.simps)

lemma nat_toString_big:
  "\<not> n < 10 \<Longrightarrow> nat_toString n = nat_toString (n div 10) @ [digit_char (n mod 10)]"
  by (subst nat_toString.simps) simp

lemma length_nat_toString_pos: "0 < length (nat_toString n)"
  by (cases "n < 10") (simp_all add: nat_toString_small nat_toString_big)

lemma length_nat_toString_mono:
  "m \<le> n \<Longrightarrow> length (nat_toString m) \<le> length (nat_toString n)"
proof (induction n arbitrary: m rule: nat_toString.induct)
  case (1 n)
  show ?case
  proof (cases "n < 10")
    case True
    with "1.prems" show ?thesis by (simp add: nat_toString_small)
  next
    case False
    show ?thesis
    proof (cases "m < 10")
      case True
      with False show ?thesis
        using length_nat_toString_pos [of "n div 10"]
        by (simp add: nat_toString_small nat_toString_big)
    next
      case m: False
      from "1.prems" have "m div 10 \<le> n div 10" by (rule div_le_mono)
      with "1.IH" [OF False] False m show ?thesis
        by (simp add: nat_toString_big)
    qed
  qed
qed

lemma of_char_digit_char: "d < 10 \<Longrightarrow> (of_char (digit_char d) :: nat) = 48 + d"
proof -
  assume "d < 10"
  then have "d = 0 \<or> d = 1 \<or> d = 2 \<or> d = 3 \<or> d = 4 \<or> d = 5 \<or> d = 6 \<or> d = 7
      \<or> d = 8 \<or> d = 9"
    by arith
  then show ?thesis
    by (elim disjE) (simp_all add: digit_char_def)
qed

lemma nat_toString_lexord:
  "m < n \<Longrightarrow> length (nat_toString m) = length (nat_toString n) \<Longrightarrow>
   (nat_toString m, nat_toString n) \<in> lexord {(c, d). (of_char c :: nat) < of_char d}"
proof (induction n arbitrary: m rule: nat_toString.induct)
  case (1 n)
  let ?r = "{(c, d). (of_char c :: nat) < of_char d}"
  show ?case
  proof (cases "n < 10")
    case True
    with "1.prems" show ?thesis
      by (simp add: nat_toString_small of_char_digit_char)
  next
    case False
    have m: "\<not> m < 10"
    proof
      assume "m < 10"
      with False "1.prems"(2) length_nat_toString_pos [of "n div 10"] show False
        by (simp add: nat_toString_small nat_toString_big)
    qed
    from m False "1.prems"(2)
    have len: "length (nat_toString (m div 10)) = length (nat_toString (n div 10))"
      by (simp add: nat_toString_big)
    from "1.prems"(1) have le: "m div 10 \<le> n div 10"
      by (simp add: div_le_mono)
    show ?thesis
    proof (cases "m div 10 = n div 10")
      case True
      with "1.prems"(1) have "m mod 10 < n mod 10"
        by (metis div_mult_mod_eq nat_add_left_cancel_less)
      then have "(digit_char (m mod 10), digit_char (n mod 10)) \<in> ?r"
        by (simp add: of_char_digit_char)
      then have "(nat_toString (n div 10) @ digit_char (m mod 10) # [],
                  nat_toString (n div 10) @ digit_char (n mod 10) # []) \<in> lexord ?r"
        by (rule lexord_append_left_rightI)
      with True m False show ?thesis
        by (simp add: nat_toString_big)
    next
      case ne: False
      with le have "m div 10 < n div 10" by simp
      from "1.IH" [OF False this len]
      have "(nat_toString (m div 10) @ [digit_char (m mod 10)],
             nat_toString (n div 10) @ [digit_char (n mod 10)]) \<in> lexord ?r"
        using len by (intro lexord_sufI) simp_all
      with m False show ?thesis
        by (simp add: nat_toString_big)
    qed
  qed
qed

lemma number_toString_monotone:
  assumes "0 \<le> t1" and "t1 < t2"
  shows "sortsBefore (number_toString t1) (number_toString t2)"
proof -
  from assms have n: "nat t1 < nat t2" by simp
  then have "nat t1 \<le> nat t2" by (rule less_imp_le)
  then have "length (nat_toString (nat t1)) \<le> length (nat_toString (nat t2))"
    by (rule length_nat_toString_mono)
  with nat_toString_lexord [OF n] assms show ?thesis
    by (auto simp: sortsBefore_def number_toString_def)
qed

section \<open>Properties of handleMergePdfs\<close>

lemma handleMergePdfs_success:
  assumes "2 \<le> length (selectedFiles s)"
    and "mergePdfs lib (Some (map pfile (selectedFiles s))) = Inr mergedPdfBytes"
  shows "handleMergePdfs lib createObjectURL s =
           s\<lparr>isMerging := False, error := None,
             mergedPdfUrl := Some (createObjectURL mergedPdfBytes)\<rparr>"
  using assms
  by (simp add: handleMergePdfs_def handleMergePdfs_begin_def handleMergePdfs_settle_def)


section \<open>Concrete runs with the stand-in library\<close>

lemma stub_loadAndCopy_Pdf: "loadAndCopy stubPDFDocument (Pdf ps) = Some ps"
  by (simp add: loadAndCopy_def stubPDFDocument_def map_nth)

lemma stub_loadAndCopy_Garbage: "loadAndCopy stubPDFDocument Garbage = None"
  by (simp add: loadAndCopy_def stubPDFDocument_def)

lemma stub_loadAndCopy_CopyProtected: "loadAndCopy stubPDFDocument (CopyProtected ps) = None"
  by (simp add: loadAndCopy_def stubPDFDocument_def)

lemmas stub_loadAndCopy =
  stub_loadAndCopy_Pdf stub_loadAndCopy_Garbage stub_loadAndCopy_CopyProtected

lemma twoSelected_eq:
  "twoSelected =
     \<lparr>selectedFiles =
        [\<lparr>pid = ''a.pdf-1700000000000'', pfile = a_pdf, pname = ''a.pdf''\<rparr>,
         \<lparr>pid = ''b.pdf-1700000000001'', pfile = b_pdf, pname = ''b.pdf''\<rparr>],
      mergedPdfUrl = None, isMerging = False, error = None, dragOver = False\<rparr>"
  by (simp add: twoSelected_def handleFileChange_def newFiles_of_def updateSelected_def
      initialState_def clock0_def enumerate_eq_zip number_toString_def nat_toString.simps
      digit_char_def a_pdf_def b_pdf_def)

lemma merge_a_b:
  "mergePdfs (Loaded stubPDFDocument) (Some [a_pdf, b_pdf]) =
     Inr (Pdf [''a1'', ''a2'', ''b1'', ''b2'', ''b3''])"
  by (simp add: mergePdfs_Loaded a_pdf_def b_pdf_def stub_loadAndCopy)
    (simp add: stubPDFDocument_def)

lemma afterMerge_eq:
  "afterMerge =
     \<lparr>selectedFiles =
        [\<lparr>pid = ''a.pdf-1700000000000'', pfile = a_pdf, pname = ''a.pdf''\<rparr>,
         \<lparr>pid = ''b.pdf-1700000000001'', pfile = b_pdf, pname = ''b.pdf''\<rparr>],
      mergedPdfUrl = Some ''blob:merged'', isMerging = False, error = None, dragOver = False\<rparr>"
  by (simp add: afterMerge_def twoSelected_eq handleMergePdfs_def handleMergePdfs_begin_def
      handleMergePdfs_settle_def merge_a_b stubCreateObjectURL_def)

lemma newFiles_of_c:
  "newFiles_of clock0 [c_pdf] =
     [\<lparr>pid = ''c.pdf-1700000000000'', pfile = c_pdf, pname = ''c.pdf''\<rparr>]"
  by (simp add: newFiles_of_def enumerate_eq_zip clock0_def number_toString_def
      nat_toString.simps digit_char_def c_pdf_def)

section \<open>The claims\<close>

text \<open>
  C1 (the code does not do this). The claim: in every state that holds a merge result,
  adding files or removing an entry clears the merge result, so that the stale document can
  no longer be downloaded. \<^verbatim>\<open>handleRemoveFile\<close> does clear it
  (\<open>handleRemoveFile_invalidates\<close>), but \<^verbatim>\<open>handleFileChange\<close> and \<^verbatim>\<open>handleDrop\<close>
  never write \<^verbatim>\<open>mergedPdfUrl\<close> (\<open>mergedPdfUrl_handleFileChange\<close>,
  \<open>mergedPdfUrl_handleDrop\<close>). The run: \<^verbatim>\<open>a.pdf\<close> and \<^verbatim>\<open>b.pdf\<close> are merged, then
  \<^verbatim>\<open>c.pdf\<close> is added; the selection has three files and the download handler still offers
  the merge of the first two.
\<close>

theorem add_keeps_stale_merge_result:
  "mergedPdfUrl afterMerge = Some ''blob:merged''
   \<and> map pname (selectedFiles (handleFileChange (Some [c_pdf]) clock0 afterMerge)) =
       [''a.pdf'', ''b.pdf'', ''c.pdf'']
   \<and> mergedPdfUrl (handleFileChange (Some [c_pdf]) clock0 afterMerge) = Some ''blob:merged''
   \<and> mergedPdfUrl (handleDrop (Some [c_pdf]) clock0 afterMerge) = Some ''blob:merged''
   \<and> handleDownloadMergedPdf (handleFileChange (Some [c_pdf]) clock0 afterMerge) 1700000000500 =
       Some \<lparr>href = ''blob:merged'', download = ''documento_fusionado_1700000000500.pdf''\<rparr>"
  by (simp add: afterMerge_eq selectedFiles_handleFileChange mergedPdfUrl_handleFileChange
      mergedPdfUrl_handleDrop updateSelected_eq newFiles_of_c handleDownloadMergedPdf_def
      truthy_def number_toString_def nat_toString.simps digit_char_def)

text \<open>
  C2 (amended). The claim: for every sequence of at least two valid PDF files,
  \<^verbatim>\<open>mergePdfs\<close> returns a document whose pages are the pages of the inputs, file after
  file in input order, so that the page count is the sum of the inputs' page counts.

  As stated it fails when the valid inputs have no page at all: the check
  \<^verbatim>\<open>mergedPdf.getPageCount() === 0\<close> then throws instead of returning a document of zero
  pages.
\<close>

theorem merge_of_empty_documents_fails:
  "2 \<le> length [empty_pdf, blank_pdf]
   \<and> validPdf stubPDFDocument empty_pdf
   \<and> validPdf stubPDFDocument blank_pdf
   \<and> length (thePages stubPDFDocument empty_pdf) + length (thePages stubPDFDocument blank_pdf) = 0
   \<and> mergePdfs (Loaded stubPDFDocument) (Some [empty_pdf, blank_pdf]) = Inl (Error msg_no_pages)"
  by (simp add: validPdf_def thePages_def pagesOf_def mergePdfs_Loaded stub_loadAndCopy
      empty_pdf_def blank_pdf_def)

text \<open>
  C2 as amended. What holds, with the library loaded: for every sequence of at least two
  valid PDF files that have at least one page between them, \<^verbatim>\<open>mergePdfs\<close> returns the
  serialisation of the document whose pages are the pages of the first file in their order,
  then those of the second, and so on; when they have no page at all it throws the error
  \<^verbatim>\<open>No se fusionaron ...\<close>. The number of pages is the sum of the inputs' page counts.
\<close>

theorem mergePdfs_concatenates:
  assumes "2 \<le> length fs" and "\<forall>f\<in>set fs. validPdf api f"
  shows "mergePdfs (Loaded api) (Some fs) =
           (if concat (map (thePages api) fs) = [] then Inl (Error msg_no_pages)
            else Inr (save api (concat (map (thePages api) fs))))
         \<and> length (concat (map (thePages api) fs)) = (\<Sum>f\<leftarrow>fs. length (thePages api f))"
proof -
  from assms(1) have "fs \<noteq> []" by auto
  then show ?thesis
    using mergeLoop_valid [OF assms(2), of "[]"] length_concat_pages [of api fs]
    by (simp add: mergePdfs_Loaded)
qed

theorem mergePdfs_concatenates_witness:
  "2 \<le> length [a_pdf, b_pdf]
   \<and> validPdf stubPDFDocument a_pdf
   \<and> validPdf stubPDFDocument b_pdf
   \<and> thePages stubPDFDocument a_pdf = [''a1'', ''a2'']
   \<and> thePages stubPDFDocument b_pdf = [''b1'', ''b2'', ''b3'']
   \<and> mergePdfs (Loaded stubPDFDocument) (Some [a_pdf, b_pdf]) =
       Inr (save stubPDFDocument [''a1'', ''a2'', ''b1'', ''b2'', ''b3''])
   \<and> length [''a1'', ''a2'', ''b1'', ''b2'', ''b3''] = (2::nat) + 3"
proof -
  have two: "2 \<le> length [a_pdf, b_pdf]" by simp
  have va: "validPdf stubPDFDocument a_pdf" and vb: "validPdf stubPDFDocument b_pdf"
    by (simp_all add: validPdf_def pagesOf_def stub_loadAndCopy a_pdf_def b_pdf_def)
  then have valid: "\<forall>f\<in>set [a_pdf, b_pdf]. validPdf stubPDFDocument f" by simp
  have pa: "thePages stubPDFDocument a_pdf = [''a1'', ''a2'']"
    and pb: "thePages stubPDFDocument b_pdf = [''b1'', ''b2'', ''b3'']"
    by (simp_all add: thePages_def pagesOf_def stub_loadAndCopy a_pdf_def b_pdf_def)
  from mergePdfs_concatenates [OF two valid] two va vb pa pb
  show ?thesis by simp
qed




text \<open>
  C4. In every application state with fewer than two selected files, \<^verbatim>\<open>handleMergePdfs\<close>
  returns before it calls \<^verbatim>\<open>mergePdfs\<close> (the beginning of the handler yields no call), and
  all it does to the state is to set the message that asks for at least two PDF files; this
  holds whatever the library and \<^verbatim>\<open>URL.createObjectURL\<close> are.
\<close>

theorem merge_needs_two_files:
  assumes "length (selectedFiles s) < 2"
  shows "snd (handleMergePdfs_begin s) = None
         \<and> handleMergePdfs lib createObjectURL s = s\<lparr>error := Some msg_select_two\<rparr>
         \<and> error (handleMergePdfs lib createObjectURL s) =
             Some ''Por favor, selecciona al menos dos archivos PDF para fusionar.''"
  using assms by (simp add: handleMergePdfs_def handleMergePdfs_begin_def msg_select_two_def)

theorem merge_needs_two_files_witness:
  "length (selectedFiles oneSelected) < 2
   \<and> snd (handleMergePdfs_begin oneSelected) = None
   \<and> handleMergePdfs (Loaded stubPDFDocument) stubCreateObjectURL oneSelected =
       oneSelected\<lparr>error := Some msg_select_two\<rparr>
   \<and> error (handleMergePdfs (Loaded stubPDFDocument) stubCreateObjectURL oneSelected) =
       Some ''Por favor, selecciona al menos dos archivos PDF para fusionar.''"
proof -
  have one: "length (selectedFiles oneSelected) < 2"
    by (simp add: oneSelected_def selectedFiles_handleFileChange updateSelected_eq
        length_newFiles_of initialState_def a_pdf_def)
  from one merge_needs_two_files [OF one, of "Loaded stubPDFDocument" stubCreateObjectURL]
  show ?thesis by blast
qed

text \<open>
  C5 (the code does not do this). The claim: files with the same display name, added in
  separate batches or in one batch, leave exactly one entry of that name, the first. Across
  batches the code does this (\<open>added_later_is_dropped\<close>, \<open>distinct_names_preserved\<close>).
  Within one batch it does not: the updater looks for the name in \<^verbatim>\<open>prevFiles\<close>, which
  does not contain the files pushed earlier in the same batch. The run: two different files
  named \<^verbatim>\<open>a.pdf\<close> are dropped together on the empty selection, and both are stored.
\<close>

theorem same_name_twice_in_one_batch:
  "map pname (selectedFiles (handleDrop (Some [a_pdf, a_pdf_other]) clock0 initialState)) =
     [''a.pdf'', ''a.pdf'']
   \<and> map pfile (selectedFiles (handleDrop (Some [a_pdf, a_pdf_other]) clock0 initialState)) =
     [a_pdf, a_pdf_other]
   \<and> map pname
       (selectedFiles (handleFileChange (Some [a_pdf, a_pdf_other]) clock0 initialState)) =
     [''a.pdf'', ''a.pdf'']"
  by (simp add: selectedFiles_handleFileChange selectedFiles_handleDrop updateSelected_eq
      newFiles_of_pname newFiles_of_pfile initialState_def a_pdf_def a_pdf_other_def)



text \<open>
  C7. For every application state, \<^verbatim>\<open>handleClearAll\<close> (the operation \<^verbatim>\<open>clear()\<close>) yields a
  state in which the selection is empty, the merge result is gone, so that the download
  handler offers nothing, the error message is cleared and the flag \<^verbatim>\<open>isMerging\<close> is false.
\<close>

theorem handleClearAll_resets:
  "selectedFiles (handleClearAll s) = []
   \<and> mergedPdfUrl (handleClearAll s) = None
   \<and> handleDownloadMergedPdf (handleClearAll s) now = None
   \<and> error (handleClearAll s) = None
   \<and> isMerging (handleClearAll s) = False"
  by (simp add: handleClearAll_def handleDownloadMergedPdf_def truthy_def)

text \<open>
  C8 (amended). The claim: after a successful merge the download action offers the document
  under a file name of the form \<^verbatim>\<open>merged_document_<timestamp>.pdf\<close>, the timestamp being
  the creation time in a monotonically increasing encoding.

  The name that \<^verbatim>\<open>handleDownloadMergedPdf\<close> gives begins with
  \<^verbatim>\<open>documento_fusionado_\<close>, not with \<^verbatim>\<open>merged_document_\<close>.
\<close>

theorem download_name_is_not_merged_document:
  "handleDownloadMergedPdf afterMerge 1700000000500 =
     Some \<lparr>href = ''blob:merged'', download = ''documento_fusionado_1700000000500.pdf''\<rparr>
   \<and> take 16 ''documento_fusionado_1700000000500.pdf'' \<noteq> ''merged_document_''"
  by (simp add: afterMerge_eq handleDownloadMergedPdf_def truthy_def number_toString_def
      nat_toString.simps digit_char_def)

text \<open>
  C8 as amended. What holds: after every successful merge (at least two files selected,
  \<^verbatim>\<open>mergePdfs\<close> returned, and \<^verbatim>\<open>URL.createObjectURL\<close> gave a non-empty URL) the
  download action offers
  that URL under the name \<^verbatim>\<open>documento_fusionado_<timestamp>.pdf\<close>, where the timestamp is
  the decimal rendering of \<^verbatim>\<open>Date.now()\<close> read when the download handler runs. The
  rendering is increasing: of two non-negative readings, the later one gives a longer string,
  or one of the same length that comes later in the order of the character codes.
\<close>

theorem download_filename:
  assumes "2 \<le> length (selectedFiles s)"
    and "mergePdfs lib (Some (map pfile (selectedFiles s))) = Inr mergedPdfBytes"
    and "createObjectURL mergedPdfBytes \<noteq> []"
  shows "handleDownloadMergedPdf (handleMergePdfs lib createObjectURL s) now =
           Some \<lparr>href = createObjectURL mergedPdfBytes,
                 download = ''documento_fusionado_'' @ number_toString now @ ''.pdf''\<rparr>
         \<and> (0 \<le> t1 \<and> t1 < t2 \<longrightarrow> sortsBefore (number_toString t1) (number_toString t2))"
  using assms number_toString_monotone [of t1 t2]
  by (simp add: handleMergePdfs_success handleDownloadMergedPdf_def truthy_def)

theorem download_filename_witness:
  "2 \<le> length (selectedFiles twoSelected)
   \<and> mergePdfs (Loaded stubPDFDocument) (Some (map pfile (selectedFiles twoSelected))) =
       Inr (Pdf [''a1'', ''a2'', ''b1'', ''b2'', ''b3''])
   \<and> stubCreateObjectURL (Pdf [''a1'', ''a2'', ''b1'', ''b2'', ''b3'']) \<noteq> []
   \<and> handleDownloadMergedPdf
       (handleMergePdfs (Loaded stubPDFDocument) stubCreateObjectURL twoSelected) 1700000000500 =
       Some \<lparr>href = ''blob:merged'', download = ''documento_fusionado_1700000000500.pdf''\<rparr>
   \<and> sortsBefore (number_toString 999) (number_toString 1000)
   \<and> sortsBefore ''1700000000000'' ''1700000000500''"
proof -
  have two: "2 \<le> length (selectedFiles twoSelected)"
    by (simp add: twoSelected_eq)
  have merged: "mergePdfs (Loaded stubPDFDocument) (Some (map pfile (selectedFiles twoSelected)))
                = Inr (Pdf [''a1'', ''a2'', ''b1'', ''b2'', ''b3''])"
    by (simp add: twoSelected_eq merge_a_b)
  have url: "stubCreateObjectURL (Pdf [''a1'', ''a2'', ''b1'', ''b2'', ''b3'']) \<noteq> []"
    by (simp add: stubCreateObjectURL_def)
  have digits: "number_toString 1700000000500 = ''1700000000500''"
    "number_toString 1700000000000 = ''1700000000000''"
    by (simp_all add: number_toString_def nat_toString.simps digit_char_def)
  note run =
    download_filename
      [where s = twoSelected and lib = "Loaded stubPDFDocument"
         and createObjectURL = stubCreateObjectURL and now = 1700000000500
         and ?t1.0 = 1700000000000 and ?t2.0 = 1700000000500,
       OF two merged url]
  from run have "handleDownloadMergedPdf
       (handleMergePdfs (Loaded stubPDFDocument) stubCreateObjectURL twoSelected) 1700000000500 =
       Some \<lparr>href = stubCreateObjectURL (Pdf [''a1'', ''a2'', ''b1'', ''b2'', ''b3'']),
             download = ''documento_fusionado_'' @ number_toString 1700000000500 @ ''.pdf''\<rparr>"
    by (rule conjunct1)
  then have offered: "handleDownloadMergedPdf
       (handleMergePdfs (Loaded stubPDFDocument) stubCreateObjectURL twoSelected) 1700000000500 =
       Some \<lparr>href = ''blob:merged'', download = ''documento_fusionado_1700000000500.pdf''\<rparr>"
    by (simp only: digits stubCreateObjectURL_def append.simps)
  from run have "sortsBefore (number_toString 1700000000000) (number_toString 1700000000500)"
    by simp
  then have later: "sortsBefore ''1700000000000'' ''1700000000500''"
    by (simp only: digits)
  from download_filename
         [where s = twoSelected and lib = "Loaded stubPDFDocument"
            and createObjectURL = stubCreateObjectURL and now = 0
            and ?t1.0 = 999 and ?t2.0 = 1000,
          OF two merged url]
  have longer: "sortsBefore (number_toString 999) (number_toString 1000)"
    by simp
  from two merged url offered longer later show ?thesis
    by (intro conjI)
qed

text \<open>
  C9. With the library loaded, for every non-empty input list: the outcome of
  \<^verbatim>\<open>mergePdfs\<close> is the outcome for the list without the files whose declared type is not
  \<^verbatim>\<open>application/pdf\<close> (they raise no error and add no page), unless no file is left, and
  then it is the error \<^verbatim>\<open>No se fusionaron ...\<close>. In particular a list of files none of
  which is declared as PDF fails with that error, which is not the error that names a file,
  whatever the name.
\<close>

theorem mergePdfs_skips_non_pdf:
  assumes "fs \<noteq> []"
  shows "mergePdfs (Loaded api) (Some fs) =
           (if filter (\<lambda>f. ftype f = application_pdf) fs = [] then Inl (Error msg_no_pages)
            else mergePdfs (Loaded api) (Some (filter (\<lambda>f. ftype f = application_pdf) fs)))
         \<and> ((\<forall>f\<in>set fs. ftype f \<noteq> application_pdf) \<longrightarrow>
              mergePdfs (Loaded api) (Some fs) = Inl (Error msg_no_pages)
              \<and> (\<forall>n. mergePdfs (Loaded api) (Some fs) \<noteq> Inl (Error (msg_process n))))"
proof -
  let ?pdfs = "filter (\<lambda>f. ftype f = application_pdf) fs"
  have loop: "mergeLoop api [] fs = mergeLoop api [] ?pdfs"
    by (simp add: mergeLoop_skips_non_pdf)
  have first: "mergePdfs (Loaded api) (Some fs) =
           (if ?pdfs = [] then Inl (Error msg_no_pages) else mergePdfs (Loaded api) (Some ?pdfs))"
    using assms by (simp add: mergePdfs_Loaded loop)
  have "?pdfs = []" if "\<forall>f\<in>set fs. ftype f \<noteq> application_pdf"
    using that by (simp add: filter_empty_conv)
  with first show ?thesis
    by (auto simp: msg_process_neq_no_pages [symmetric])
qed

theorem mergePdfs_skips_non_pdf_witness:
  "[notes_txt] \<noteq> []
   \<and> ftype notes_txt \<noteq> application_pdf
   \<and> mergePdfs (Loaded stubPDFDocument) (Some [notes_txt]) = Inl (Error msg_no_pages)
   \<and> mergePdfs (Loaded stubPDFDocument) (Some [notes_txt]) \<noteq>
       Inl (Error (msg_process ''notes.txt''))
   \<and> mergePdfs (Loaded stubPDFDocument) (Some [a_pdf, notes_txt, b_pdf]) =
       mergePdfs (Loaded stubPDFDocument) (Some [a_pdf, b_pdf])"
proof -
  have plain: "ftype notes_txt \<noteq> application_pdf"
    by (simp add: notes_txt_def application_pdf_def)
  then have none: "\<forall>f\<in>set [notes_txt]. ftype f \<noteq> application_pdf"
    by simp
  have one: "[notes_txt] \<noteq> []" and three: "[a_pdf, notes_txt, b_pdf] \<noteq> []"
    by simp_all
  have pdfs: "filter (\<lambda>f. ftype f = application_pdf) [a_pdf, notes_txt, b_pdf] = [a_pdf, b_pdf]"
    using plain by (simp add: a_pdf_def b_pdf_def)
  from mergePdfs_skips_non_pdf [OF one, of stubPDFDocument] none
  have alone: "mergePdfs (Loaded stubPDFDocument) (Some [notes_txt]) = Inl (Error msg_no_pages)"
    and unnamed: "mergePdfs (Loaded stubPDFDocument) (Some [notes_txt]) \<noteq>
                  Inl (Error (msg_process ''notes.txt''))"
    by blast+
  from mergePdfs_skips_non_pdf [OF three, of stubPDFDocument]
  have between: "mergePdfs (Loaded stubPDFDocument) (Some [a_pdf, notes_txt, b_pdf]) =
                 mergePdfs (Loaded stubPDFDocument) (Some [a_pdf, b_pdf])"
    by (simp only: pdfs list.distinct if_False)
  from one plain alone unnamed between show ?thesis
    by (intro conjI)
qed

text \<open>
  C10 (amended). The claim: \<^verbatim>\<open>mergePdfs\<close> raises its error
  \<^verbatim>\<open>No se proporcionaron archivos para fusionar.\<close> exactly when the list is empty or absent,
  and a list of exactly one valid PDF file is accepted and merges to that file's pages.

  The second part fails, as stated, for a valid file without pages: the check
  \<^verbatim>\<open>mergedPdf.getPageCount() === 0\<close> throws.
\<close>

theorem single_empty_document_fails:
  "validPdf stubPDFDocument empty_pdf
   \<and> thePages stubPDFDocument empty_pdf = []
   \<and> mergePdfs (Loaded stubPDFDocument) (Some [empty_pdf]) = Inl (Error msg_no_pages)"
  by (simp add: validPdf_def thePages_def pagesOf_def mergePdfs_Loaded stub_loadAndCopy
      empty_pdf_def)

text \<open>
  C10 as amended. What holds, with the library loaded: \<^verbatim>\<open>mergePdfs\<close> rejects with the
  error \<^verbatim>\<open>No se proporcionaron archivos para fusionar.\<close> if and only if the list is
  absent or empty; and a list of exactly one valid PDF file that has at least one page is merged to the
  serialisation of that file's pages, while one without pages gives the error
  \<^verbatim>\<open>No se fusionaron ...\<close>. The minimum of two files is not checked by \<^verbatim>\<open>mergePdfs\<close>.
\<close>

theorem mergePdfs_no_files_iff:
  "(mergePdfs (Loaded api) files = Inl (Error ''No se proporcionaron archivos para fusionar.''))
     = (files = None \<or> files = Some [])
   \<and> (validPdf api f \<longrightarrow>
        mergePdfs (Loaded api) (Some [f]) =
          (if thePages api f = [] then Inl (Error msg_no_pages)
           else Inr (save api (thePages api f))))"
proof -
  have a: "mergePdfs (Loaded api) files = Inl (Error msg_no_files) \<longleftrightarrow>
           files = None \<or> files = Some []"
  proof (cases files)
    case None
    then show ?thesis by (simp add: mergePdfs_def)
  next
    case (Some fs)
    show ?thesis
    proof (cases "fs = []")
      case True
      with Some show ?thesis by (simp add: mergePdfs_Loaded)
    next
      case False
      have "mergePdfs (Loaded api) (Some fs) \<noteq> Inl (Error msg_no_files)"
      proof (cases "mergeLoop api [] fs")
        case (Inl e)
        have "e \<noteq> Error msg_no_files"
          using mergeLoop_error_cases [OF Inl] msg_process_neq_no_files
          by (metis thrown.inject(1) thrown.distinct(3))
        with Inl False show ?thesis
          by (simp add: mergePdfs_Loaded)
      next
        case (Inr ps)
        with False show ?thesis
          by (simp add: mergePdfs_Loaded msg_no_pages_neq_no_files)
      qed
      with Some False show ?thesis by simp
    qed
  qed
  have b: "mergePdfs (Loaded api) (Some [f]) =
          (if thePages api f = [] then Inl (Error msg_no_pages)
           else Inr (save api (thePages api f)))" if "validPdf api f"
    using mergeLoop_valid [of "[f]" api "[]"] that by (simp add: mergePdfs_Loaded)
  from a b show ?thesis
    by (simp add: msg_no_files_def)
qed

theorem mergePdfs_no_files_iff_witness:
  "validPdf stubPDFDocument a_pdf
   \<and> mergePdfs (Loaded stubPDFDocument) (Some [a_pdf]) =
       Inr (save stubPDFDocument [''a1'', ''a2''])
   \<and> mergePdfs (Loaded stubPDFDocument) (Some []) =
       Inl (Error ''No se proporcionaron archivos para fusionar.'')
   \<and> mergePdfs (Loaded stubPDFDocument) None =
       Inl (Error ''No se proporcionaron archivos para fusionar.'')
   \<and> mergePdfs (Loaded stubPDFDocument) (Some [a_pdf]) \<noteq>
       Inl (Error ''No se proporcionaron archivos para fusionar.'')"
proof -
  have va: "validPdf stubPDFDocument a_pdf"
    by (simp add: validPdf_def pagesOf_def stub_loadAndCopy a_pdf_def)
  have pa: "thePages stubPDFDocument a_pdf = [''a1'', ''a2'']"
    by (simp add: thePages_def pagesOf_def stub_loadAndCopy a_pdf_def)
  from mergePdfs_no_files_iff [of stubPDFDocument "Some [a_pdf]" a_pdf]
       mergePdfs_no_files_iff [of stubPDFDocument "Some []" a_pdf]
       mergePdfs_no_files_iff [of stubPDFDocument None a_pdf] va pa
  show ?thesis by simp
qed

end
